theory Spec2Isabelle
  imports Main "HOL-Library.Monad_Syntax"
begin

section \<open>The map-file parser of \<open>map_analyser.py\<close>\<close>

text \<open>
  A shallow embedding of \<open>parse_iar_number\<close> and \<open>parse_map_file\<close>.

  Conventions of the model.
  \<^item> A Python \<open>str\<close> is a \<open>string\<close>; a character is a code point below 256. The
    character classes are Python's on that range: \<open>str.isspace\<close> (also the class of
    \<open>\s\<close> and of \<open>strip()\<close>) and the decimal digits \<open>0..9\<close> (the class of \<open>\d\<close>).
    Code points from 256 on are outside the model.
  \<^item> Python's \<open>int\<close> is \<open>int\<close>. The interpreter's optional limit on the number of
    digits \<open>int()\<close> converts (4300 by default since Python 3.11) is a setting of the
    interpreter and is not modelled.
  \<^item> The parser is modelled from the point where \<open>lines = content.splitlines()\<close> is
    known: opening and decoding the file are outside the model, and \<open>project_name\<close>,
    which \<open>os.path\<close> computes from the path, is a parameter.
  \<^item> \<open>ValueError\<close>, the only exception the parser's own code can raise, is the \<open>Inl\<close>
    branch of a sum type.
  \<^item> A \<open>while i < len(lines)\<close> loop is a recursion over the remaining lines
    \<open>lines[i:]\<close>: \<open>i += 1\<close> recurses on the tail, \<open>i += 2\<close> on the tail's tail.
  \<^item> Every regular expression of the source is a hand-written matcher. Each one is
    deterministic: a greedy repetition is always followed by a character outside its
    class, so backtracking never finds a second way to match.
\<close>

subsection \<open>Characters and the string methods the parser calls\<close>

datatype error = ValueError

definition is_space :: "char \<Rightarrow> bool" where
  \<comment> \<open>\<open>str.isspace\<close> below 256: TAB, LF, VT, FF, CR, FS, GS, RS, US, space, NEL, NBSP.\<close>
  "is_space c = (c \<in> set [CHR 0x09, CHR 0x0A, CHR 0x0B, CHR 0x0C, CHR 0x0D, CHR 0x1C,
                           CHR 0x1D, CHR 0x1E, CHR 0x1F, CHR 0x20, CHR 0x85, CHR 0xA0])"

definition is_digit :: "char \<Rightarrow> bool" where
  "is_digit c = (c \<in> set ''0123456789'')"

definition apostrophe :: char where
  "apostrophe = CHR 0x27"

definition backslash :: char where
  "backslash = CHR 0x5C"

definition newline :: char where
  "newline = CHR 0x0A"

definition lstrip :: "string \<Rightarrow> string" where
  "lstrip s = dropWhile is_space s"

definition rstrip :: "string \<Rightarrow> string" where
  "rstrip s = rev (dropWhile is_space (rev s))"

definition strip :: "string \<Rightarrow> string" where
  "strip s = rstrip (lstrip s)"

definition lstrip_chars :: "string \<Rightarrow> string \<Rightarrow> string" where
  \<comment> \<open>\<open>s.lstrip(chars)\<close>\<close>
  "lstrip_chars chars s = dropWhile (\<lambda>c. c \<in> set chars) s"

definition rstrip_chars :: "string \<Rightarrow> string \<Rightarrow> string" where
  \<comment> \<open>\<open>s.rstrip(chars)\<close>\<close>
  "rstrip_chars chars s = rev (dropWhile (\<lambda>c. c \<in> set chars) (rev s))"

definition startswith :: "string \<Rightarrow> string \<Rightarrow> bool" where
  \<comment> \<open>\<open>s.startswith(p)\<close>\<close>
  "startswith s p = (take (length p) s = p)"

fun contains :: "string \<Rightarrow> string \<Rightarrow> bool" where
  \<comment> \<open>\<open>p in s\<close>\<close>
  "contains p [] = (p = [])"
| "contains p (c # cs) = (startswith (c # cs) p \<or> contains p cs)"

fun find_from :: "string \<Rightarrow> string \<Rightarrow> int \<Rightarrow> int" where
  "find_from p [] i = (if p = [] then i else -1)"
| "find_from p (c # cs) i = (if startswith (c # cs) p then i else find_from p cs (i + 1))"

definition find_str :: "string \<Rightarrow> string \<Rightarrow> int" where
  \<comment> \<open>\<open>s.find(p)\<close>: the index of the first occurrence, or -1.\<close>
  "find_str s p = find_from p s 0"

fun replace_str :: "string \<Rightarrow> string \<Rightarrow> string \<Rightarrow> string" where
  \<comment> \<open>\<open>s.replace(old, new)\<close> for a non-empty \<open>old\<close>: occurrences are replaced from the
      left and do not overlap.\<close>
  "replace_str old new [] = []"
| "replace_str old new (c # cs) =
     (if old \<noteq> [] \<and> startswith (c # cs) old
      then new @ replace_str old new (drop (length old - 1) cs)
      else c # replace_str old new cs)"

definition ljust :: "string \<Rightarrow> int \<Rightarrow> string" where
  \<comment> \<open>\<open>s.ljust(n)\<close>\<close>
  "ljust s n = s @ replicate (nat n - length s) (CHR '' '')"

definition slice :: "string \<Rightarrow> int \<Rightarrow> int \<Rightarrow> string" where
  \<comment> \<open>\<open>s[a:b]\<close> for \<open>a, b \<ge> 0\<close>: empty when \<open>b \<le> a\<close>, clipped at the end of \<open>s\<close>.\<close>
  "slice s a b = take (nat b - nat a) (drop (nat a) s)"

definition slice_from :: "string \<Rightarrow> int \<Rightarrow> string" where
  \<comment> \<open>\<open>s[a:]\<close> for \<open>a \<ge> 0\<close>\<close>
  "slice_from s a = drop (nat a) s"

definition first_word :: "string \<Rightarrow> string" where
  \<comment> \<open>\<open>s.split()[0]\<close> of a string with no leading whitespace that is not empty.\<close>
  "first_word s = takeWhile (\<lambda>c. \<not> is_space c) s"

definition last_segment :: "string \<Rightarrow> string" where
  \<comment> \<open>\<open>s.split("/")[-1]\<close>\<close>
  "last_segment s = rev (takeWhile (\<lambda>c. c \<noteq> CHR ''/'') (rev s))"

fun runs :: "(char \<Rightarrow> bool) \<Rightarrow> string \<Rightarrow> string \<Rightarrow> string list" where
  "runs P cur [] = (if cur = [] then [] else [cur])"
| "runs P cur (c # cs) =
     (if P c then runs P (cur @ [c]) cs
      else if cur = [] then runs P [] cs
      else cur # runs P [] cs)"

definition findall :: "(char \<Rightarrow> bool) \<Rightarrow> string \<Rightarrow> string list" where
  \<comment> \<open>\<open>re.findall(r"[...]+", s)\<close> for a character class: its maximal runs, in order.\<close>
  "findall P s = runs P [] s"

definition digit_or_quote :: "char \<Rightarrow> bool" where
  \<comment> \<open>the class \<open>[\d']\<close>\<close>
  "digit_or_quote c = (is_digit c \<or> c = apostrophe)"

definition digit_quote_comma :: "char \<Rightarrow> bool" where
  \<comment> \<open>the class \<open>[\d',]\<close>\<close>
  "digit_quote_comma c = (is_digit c \<or> c = apostrophe \<or> c = CHR '','')"

subsection \<open>\<open>int()\<close> and \<open>parse_iar_number\<close>\<close>

definition digit_val :: "char \<Rightarrow> int" where
  "digit_val c = of_char c - 48"

definition dec_value :: "string \<Rightarrow> int" where
  \<comment> \<open>the value of a digit string, read left to right\<close>
  "dec_value ds = foldl (\<lambda>acc c. 10 * acc + digit_val c) 0 ds"

fun digits_us :: "string \<Rightarrow> bool" where
  \<comment> \<open>what may follow a digit in an integer literal: digits, and single underscores
      each followed by a digit\<close>
  "digits_us [] = True"
| "digits_us (c # cs) =
     (if is_digit c then digits_us cs
      else if c = CHR ''_'' then (case cs of [] \<Rightarrow> False | d # _ \<Rightarrow> is_digit d \<and> digits_us cs)
      else False)"

definition valid_body :: "string \<Rightarrow> bool" where
  "valid_body b = (case b of [] \<Rightarrow> False | c # cs \<Rightarrow> is_digit c \<and> digits_us cs)"

definition is_int_space :: "char \<Rightarrow> bool" where
  \<comment> \<open>The whitespace \<open>int()\<close> skips around a literal: \<open>str.isspace\<close> without the four
      separators FS, GS, RS and US.\<close>
  "is_int_space c = (c \<in> set [CHR 0x09, CHR 0x0A, CHR 0x0B, CHR 0x0C, CHR 0x0D, CHR 0x20,
                               CHR 0x85, CHR 0xA0])"

definition py_int :: "string \<Rightarrow> error + int" where
  \<comment> \<open>\<open>int(s)\<close>: surrounding whitespace, an optional sign, then digits with single
      underscores between them; anything else raises \<open>ValueError\<close>.\<close>
  "py_int s =
     (let t = rev (dropWhile is_int_space (rev (dropWhile is_int_space s)));
          neg = (t \<noteq> [] \<and> hd t = CHR ''-'');
          body = (if t \<noteq> [] \<and> (hd t = CHR ''-'' \<or> hd t = CHR ''+'') then tl t else t)
      in if valid_body body
         then Inr ((if neg then -1 else 1) * dec_value (filter is_digit body))
         else Inl ValueError)"

definition parse_iar_number :: "string \<Rightarrow> error + int" where
  "parse_iar_number s =
     (if s = [] \<or> strip s = [] then Inr 0
      else py_int (replace_str '','' [] (replace_str [apostrophe] [] (strip s))))"

fun decode_all :: "string list \<Rightarrow> error + int list" where
  \<comment> \<open>\<open>[parse_iar_number(p) for p in parts]\<close>: the first failure aborts the list.\<close>
  "decode_all [] = Inr []"
| "decode_all (p # ps) =
     (case parse_iar_number p of
        Inl e \<Rightarrow> Inl e
      | Inr n \<Rightarrow> (case decode_all ps of Inl e \<Rightarrow> Inl e | Inr ns \<Rightarrow> Inr (n # ns)))"

subsection \<open>The result model\<close>

text \<open>
  The source builds dictionaries with fixed keys; each is a record here. The entry's
  \<open>type\<close> and \<open>scope\<close> hold the text a regular-expression alternative matched, so they
  are datatypes with one constructor per alternative (\<open>Gb\<close> is global, \<open>Lc\<close> local,
  \<open>Wk\<close> weak).
\<close>

record module =
  m_name :: string
  m_group :: string
  m_ro_code :: int
  m_ro_data :: int
  m_rw_data :: int
  m_total :: int

datatype kind = Code | Data

datatype scope = Gb | Lc | Wk

record entry =
  e_name :: string
  e_address :: string
  e_size :: int
  e_type :: kind
  e_scope :: scope
  e_object :: string

record grand_total =
  gt_ro_code :: int
  gt_ro_data :: int
  gt_rw_data :: int

record summary =
  readonly_code :: int
  readonly_data :: int
  readwrite_data :: int

record report =
  project_name :: string
  toolchain_info :: string
  modules :: "module list"
  entries :: "entry list"
  grand_total :: grand_total
  summary :: summary

definition grand_total0 :: grand_total where
  "grand_total0 = \<lparr>gt_ro_code = 0, gt_ro_data = 0, gt_rw_data = 0\<rparr>"

definition summary0 :: summary where
  "summary0 = \<lparr>readonly_code = 0, readonly_data = 0, readwrite_data = 0\<rparr>"

definition and_then :: "error + 'a \<Rightarrow> ('a \<Rightarrow> error + 'b) \<Rightarrow> error + 'b" where
  \<comment> \<open>sequencing: an exception raised by the first step skips the rest\<close>
  "and_then r f = (case r of Inl e \<Rightarrow> Inl e | Inr v \<Rightarrow> f v)"

subsection \<open>Pieces of the regular expressions\<close>

definition ws1 :: "string \<Rightarrow> string option" where
  \<comment> \<open>\<open>\s+\<close>: at least one whitespace character, then all that follow\<close>
  "ws1 s = (case s of [] \<Rightarrow> None
            | c # cs \<Rightarrow> if is_space c then Some (dropWhile is_space cs) else None)"

definition lit :: "string \<Rightarrow> string \<Rightarrow> string option" where
  \<comment> \<open>literal text\<close>
  "lit p s = (if startswith s p then Some (drop (length p) s) else None)"

definition dot_star :: "string \<Rightarrow> string" where
  \<comment> \<open>\<open>(.*)\<close> at the end of a pattern: everything up to a newline\<close>
  "dot_star s = takeWhile (\<lambda>c. c \<noteq> newline) s"

definition is_hex :: "char \<Rightarrow> bool" where
  \<comment> \<open>the class \<open>[\da-fA-F]\<close>\<close>
  "is_hex c = (is_digit c \<or> c \<in> set ''abcdefABCDEF'')"

definition is_hex_quote :: "char \<Rightarrow> bool" where
  \<comment> \<open>the class \<open>[\da-fA-F']\<close>\<close>
  "is_hex_quote c = (is_hex c \<or> c = apostrophe)"

definition hex_token :: "(char \<Rightarrow> bool) \<Rightarrow> string \<Rightarrow> (string \<times> string) option" where
  \<comment> \<open>\<open>(0x[...]+)\<close>: the token and what follows it\<close>
  "hex_token cls s =
     (if startswith s ''0x'' \<and> takeWhile cls (drop 2 s) \<noteq> []
      then Some (''0x'' @ takeWhile cls (drop 2 s), dropWhile cls (drop 2 s))
      else None)"

definition kind_token :: "string \<Rightarrow> (kind \<times> string) option" where
  \<comment> \<open>\<open>(Code|Data)\<close>\<close>
  "kind_token s =
     (if startswith s ''Code'' then Some (Code, drop 4 s)
      else if startswith s ''Data'' then Some (Data, drop 4 s)
      else None)"

definition scope_token :: "string \<Rightarrow> (scope \<times> string) option" where
  \<comment> \<open>\<open>(Gb|Lc|Wk)\<close>\<close>
  "scope_token s =
     (if startswith s ''Gb'' then Some (Gb, drop 2 s)
      else if startswith s ''Lc'' then Some (Lc, drop 2 s)
      else if startswith s ''Wk'' then Some (Wk, drop 2 s)
      else None)"

definition hex_digit_val :: "char \<Rightarrow> int" where
  "hex_digit_val c =
     (if is_digit c then of_char c - 48
      else if c \<in> set ''abcdef'' then of_char c - 87
      else of_char c - 55)"

definition int_hex :: "string \<Rightarrow> int" where
  \<comment> \<open>\<open>int(size_hex, 16)\<close> of a token \<open>0x[\da-fA-F]+\<close>, the only form the pattern's third
      group lets through; on such a token \<open>int\<close> cannot raise.\<close>
  "int_hex s = foldl (\<lambda>acc c. 16 * acc + hex_digit_val c) 0 (drop 2 s)"

subsection \<open>The patterns of the entry list\<close>

definition cont_match :: "string \<Rightarrow> (string \<times> string \<times> kind \<times> scope \<times> string) option" where
  \<comment> \<open>\<open>(0x[\da-fA-F']+)\s+(0x[\da-fA-F]+)\s+(Code|Data)\s+(Gb|Lc|Wk)\s+(.*)\<close>\<close>
  "cont_match s = do {
     (address, s1) \<leftarrow> hex_token is_hex_quote s;
     s2 \<leftarrow> ws1 s1;
     (size_hex, s3) \<leftarrow> hex_token is_hex s2;
     s4 \<leftarrow> ws1 s3;
     (k, s5) \<leftarrow> kind_token s4;
     s6 \<leftarrow> ws1 s5;
     (sc, s7) \<leftarrow> scope_token s6;
     s8 \<leftarrow> ws1 s7;
     Some (address, size_hex, k, sc, dot_star s8)
   }"

definition entry_match ::
  "string \<Rightarrow> (string \<times> string \<times> string \<times> kind \<times> scope \<times> string) option" where
  \<comment> \<open>\<open>(\S+)\s+\<close> and then the pattern of \<open>cont_match\<close>\<close>
  "entry_match s =
     (if takeWhile (\<lambda>c. \<not> is_space c) s = [] then None
      else do {
        s1 \<leftarrow> ws1 (dropWhile (\<lambda>c. \<not> is_space c) s);
        r \<leftarrow> cont_match s1;
        Some (takeWhile (\<lambda>c. \<not> is_space c) s, r)
      })"

definition footnote_match :: "string \<Rightarrow> bool" where
  \<comment> \<open>\<open>^\[\d+\]\s*=\<close>\<close>
  "footnote_match s =
     (case s of
        [] \<Rightarrow> False
      | c # cs \<Rightarrow>
          c = CHR ''['' \<and> takeWhile is_digit cs \<noteq> [] \<and>
          (case dropWhile is_digit cs of
             [] \<Rightarrow> False
           | d # ds \<Rightarrow> d = CHR '']'' \<and> startswith (dropWhile is_space ds) ''=''))"

definition make_entry :: "string \<Rightarrow> string \<Rightarrow> int \<Rightarrow> kind \<Rightarrow> scope \<Rightarrow> string \<Rightarrow> entry" where
  "make_entry name address size_bytes entry_type sc obj =
     \<lparr>e_name = name, e_address = replace_str [apostrophe] [] address, e_size = size_bytes,
      e_type = entry_type, e_scope = sc, e_object = obj\<rparr>"

definition append_entry ::
  "entry list \<Rightarrow> string \<Rightarrow> string \<times> string \<times> kind \<times> scope \<times> string \<Rightarrow> entry list" where
  \<comment> \<open>\<open>size_bytes = int(size_hex, 16); if size_bytes > 0: result["entries"].append(...)\<close>\<close>
  "append_entry acc name r =
     (case r of (address, size_hex, entry_type, sc, obj) \<Rightarrow>
        if int_hex size_hex > 0
        then acc @ [make_entry name address (int_hex size_hex) entry_type sc (strip obj)]
        else acc)"

fun entry_loop :: "string list \<Rightarrow> entry list \<Rightarrow> entry list" where
  \<comment> \<open>the \<open>while\<close> loop over the entry list's body, from \<open>lines[i:]\<close>\<close>
  "entry_loop [] acc = acc"
| "entry_loop (raw # ls) acc =
     (let stripped = strip (rstrip_chars [CHR 0x0D, CHR 0x0A] raw) in
      if footnote_match stripped then acc
      else if stripped = [] then entry_loop ls acc
      else (case entry_match stripped of
              Some (name, r) \<Rightarrow> entry_loop ls (append_entry acc name r)
            | None \<Rightarrow>
                if \<not> startswith stripped ''0x'' \<and> \<not> startswith stripped ''-''
                then (case ls of
                        [] \<Rightarrow> entry_loop ls acc
                      | nxt # ls' \<Rightarrow>
                          (case cont_match (strip nxt) of
                             Some r \<Rightarrow> entry_loop ls' (append_entry acc stripped r)
                           | None \<Rightarrow> entry_loop ls acc))
                else entry_loop ls acc))"

subsection \<open>Locating the sections and their header lines\<close>

definition is_module_banner :: "string \<Rightarrow> bool" where
  "is_module_banner line = (contains ''MODULE SUMMARY'' line \<and> contains ''***'' line)"

definition is_entry_banner :: "string \<Rightarrow> bool" where
  "is_entry_banner line = (contains ''ENTRY LIST'' line \<and> contains ''***'' line)"

definition locate_step :: "nat option \<times> nat option \<Rightarrow> nat \<times> string \<Rightarrow> nat option \<times> nat option" where
  \<comment> \<open>one turn of \<open>for i, line in enumerate(lines)\<close>; the pair is
      \<open>(module_summary_start, entry_list_start)\<close>\<close>
  "locate_step st il =
     (case il of (i, line) \<Rightarrow>
        if is_module_banner line then (Some i, snd st)
        else if is_entry_banner line then (fst st, Some i)
        else st)"

definition locate_sections :: "string list \<Rightarrow> nat option \<times> nat option" where
  "locate_sections lines = foldl locate_step (None, None) (enumerate 0 lines)"

fun first_index :: "('a \<Rightarrow> bool) \<Rightarrow> 'a list \<Rightarrow> nat option" where
  "first_index P [] = None"
| "first_index P (x # xs) = (if P x then Some 0 else map_option Suc (first_index P xs))"

definition find_header :: "(string \<Rightarrow> bool) \<Rightarrow> string list \<Rightarrow> nat \<Rightarrow> nat option" where
  \<comment> \<open>\<open>for i in range(start, min(start + 10, len(lines)))\<close>: the first \<open>i\<close> whose line
      passes the test, or \<open>None\<close>\<close>
  "find_header P lines start =
     map_option (\<lambda>k. start + k) (first_index P (take 10 (drop start lines)))"

definition is_module_header :: "string \<Rightarrow> bool" where
  "is_module_header line = (contains ''Module'' line \<and> contains ''ro code'' line)"

definition is_entry_header :: "string \<Rightarrow> bool" where
  "is_entry_header line =
     (contains ''Entry'' line \<and> contains ''Address'' line \<and> contains ''Size'' line)"

definition parse_entry_list :: "string list \<Rightarrow> entry list" where
  \<comment> \<open>the block \<open>Parse ENTRY LIST\<close>; the four column offsets it computes from the header
      are never read, so they are left out\<close>
  "parse_entry_list lines =
     (case snd (locate_sections lines) of
        None \<Rightarrow> []
      | Some entry_list_start \<Rightarrow>
          (case find_header is_entry_header lines entry_list_start of
             None \<Rightarrow> []
           | Some header_idx \<Rightarrow> entry_loop (drop (header_idx + 2) lines) []))"

subsection \<open>The module summary\<close>

definition tail_ok :: "string \<Rightarrow> bool" where
  \<comment> \<open>\<open>\s*(\[\d+\])?\s*$\<close>: only whitespace, with at most one \<open>[N]\<close> in it\<close>
  "tail_ok s =
     (case dropWhile is_space s of
        [] \<Rightarrow> True
      | c # cs \<Rightarrow>
          c = CHR ''['' \<and> takeWhile is_digit cs \<noteq> [] \<and>
          (case dropWhile is_digit cs of
             [] \<Rightarrow> False
           | d # ds \<Rightarrow> d = CHR '']'' \<and> dropWhile is_space ds = []))"

fun group_scan :: "string \<Rightarrow> string \<Rightarrow> string option" where
  \<comment> \<open>the lazy \<open>.*?\<close> followed by \<open>:\<close> and the tail: the label ends at the first colon
      after which the tail matches; \<open>.\<close> does not cross a newline\<close>
  "group_scan label [] = None"
| "group_scan label (c # cs) =
     (if c = CHR '':'' \<and> tail_ok cs then Some label
      else if c = newline then None
      else group_scan (label @ [c]) cs)"

definition group_match :: "string \<Rightarrow> string option" where
  \<comment> \<open>\<open>^(\S.*?):\s*(\[\d+\])?\s*$\<close>, returning group 1\<close>
  "group_match line =
     (case line of
        [] \<Rightarrow> None
      | c # cs \<Rightarrow> if is_space c then None else group_scan [c] cs)"

function strip_hash_dir :: "string \<Rightarrow> string" where
  \<comment> \<open>\<open>re.sub(r"_\d{10,}\.dir", "", s)\<close>\<close>
  "strip_hash_dir [] = []"
| "strip_hash_dir (c # cs) =
     (if c = CHR ''_'' \<and> 10 \<le> length (takeWhile is_digit cs) \<and>
         startswith (dropWhile is_digit cs) ''.dir''
      then strip_hash_dir (drop 4 (dropWhile is_digit cs))
      else c # strip_hash_dir cs)"
  by pat_completeness auto
termination
  by (relation "measure length")
     (auto intro: le_less_trans [OF diff_le_self] le_imp_less_Suc length_dropWhile_le)

definition simplify_group :: "string \<Rightarrow> string" where
  \<comment> \<open>the new \<open>current_module_group\<close>, from group 1 of the match\<close>
  "simplify_group label =
     (let g = strip label;
          g1 = (if contains [backslash] g \<or> contains ''/'' g
                then (let seg = last_segment (replace_str [backslash] ''/'' g)
                      in if seg \<noteq> [] then seg else g)
                else g)
      in strip_hash_dir g1)"

definition mod_match :: "string \<Rightarrow> (string \<times> string) option" where
  \<comment> \<open>\<open>\s+(\S+\.o)\s+(.*)\<close>: the first word, which ends in \<open>.o\<close> after at least one other
      character, and the text after the whitespace that follows it\<close>
  "mod_match line = do {
     s1 \<leftarrow> ws1 line;
     let tok = takeWhile (\<lambda>c. \<not> is_space c) s1;
     s2 \<leftarrow> (if 3 \<le> length tok \<and> startswith (rev tok) ''o.''
           then ws1 (dropWhile (\<lambda>c. \<not> is_space c) s1) else None);
     Some (tok, dot_star s2)
   }"

record columns =
  ro_code_col :: int
  ro_data_col :: int
  rw_data_col :: int

definition header_columns :: "string \<Rightarrow> columns" where
  "header_columns header_line =
     \<lparr>ro_code_col = find_str header_line ''ro code'',
      ro_data_col = find_str header_line ''ro data'',
      rw_data_col = find_str header_line ''rw data''\<rparr>"

record mstate =
  current_module_group :: string
  ms_modules :: "module list"
  ms_grand_total :: grand_total

definition mstate0 :: mstate where
  "mstate0 = \<lparr>current_module_group = [], ms_modules = [], ms_grand_total = grand_total0\<rparr>"

definition make_module :: "string \<Rightarrow> string \<Rightarrow> int \<Rightarrow> int \<Rightarrow> int \<Rightarrow> module" where
  \<comment> \<open>the dictionary appended to \<open>result["modules"]\<close>\<close>
  "make_module name grp ro_code ro_data rw_data =
     \<lparr>m_name = name, m_group = grp, m_ro_code = ro_code, m_ro_data = ro_data,
      m_rw_data = rw_data, m_total = ro_code + ro_data + rw_data\<rparr>"

definition set_grand_total :: "int list \<Rightarrow> grand_total \<Rightarrow> grand_total" where
  \<comment> \<open>three numbers or more fill the three fields, two the first two, one the first\<close>
  "set_grand_total nums g =
     (if 3 \<le> length nums
      then g\<lparr>gt_ro_code := nums ! 0, gt_ro_data := nums ! 1, gt_rw_data := nums ! 2\<rparr>
      else if length nums = 2 then g\<lparr>gt_ro_code := nums ! 0, gt_ro_data := nums ! 1\<rparr>
      else if length nums = 1 then g\<lparr>gt_ro_code := nums ! 0\<rparr>
      else g)"

definition column_number :: "string \<Rightarrow> error + int" where
  \<comment> \<open>\<open>if text: value = parse_iar_number(text)\<close>, the value being 0 before\<close>
  "column_number t = (if t \<noteq> [] then parse_iar_number t else Inr 0)"

definition module_row :: "columns \<Rightarrow> string \<Rightarrow> string \<Rightarrow> string \<Rightarrow> string \<Rightarrow> error + module" where
  \<comment> \<open>the body of \<open>if mod_match:\<close>, for the groups \<open>tok\<close> and \<open>rest0\<close> of the match\<close>
  "module_row cols grp line tok rest0 =
     (let name = replace_str ''.o'' [] tok;
          rest = strip rest0
      in and_then (decode_all (findall digit_or_quote rest)) (\<lambda>nums.
           if 0 \<le> ro_code_col cols \<and> 0 \<le> ro_data_col cols \<and> 0 \<le> rw_data_col cols
           then
             (let padded = ljust line (rw_data_col cols + 10);
                  ro_code_text = strip (slice padded (ro_code_col cols) (ro_data_col cols));
                  ro_data_text = strip (slice padded (ro_data_col cols) (rw_data_col cols));
                  rw_data_text = strip (slice_from padded (rw_data_col cols))
              in and_then (column_number ro_code_text) (\<lambda>ro_code.
                 and_then (column_number ro_data_text) (\<lambda>ro_data.
                 and_then (column_number rw_data_text) (\<lambda>rw_data.
                 Inr (make_module name grp ro_code ro_data rw_data)))))
           else if nums \<noteq> []
           then Inr (make_module name grp
                       (if 0 < length nums then nums ! 0 else 0)
                       (if 1 < length nums then nums ! 1 else 0)
                       (if 2 < length nums then nums ! 2 else 0))
           else Inr (make_module name grp 0 0 0)))"

definition module_line :: "columns \<Rightarrow> string \<Rightarrow> mstate \<Rightarrow> error + mstate" where
  \<comment> \<open>one turn of the loop for a line that does not end the section: the chain of
      \<open>if ...: i += 1; continue\<close> of the source, in its order\<close>
  "module_line cols line st =
     (let stripped = strip line in
      if stripped = [] \<or> startswith stripped ''---'' then Inr st
      else if contains ''Grand Total:'' line
      then and_then (decode_all (findall digit_or_quote line)) (\<lambda>nums.
             Inr (st\<lparr>ms_grand_total := set_grand_total nums (ms_grand_total st)\<rparr>))
      else if startswith stripped ''Total:'' then Inr st
      else if startswith stripped ''Gaps'' \<or> startswith stripped ''Linker created'' then Inr st
      else (case (if contains ''.o'' (first_word stripped) then None else group_match line) of
              Some label \<Rightarrow> Inr (st\<lparr>current_module_group := simplify_group label\<rparr>)
            | None \<Rightarrow>
                (case mod_match line of
                   None \<Rightarrow> Inr st
                 | Some (tok, rest0) \<Rightarrow>
                     and_then (module_row cols (current_module_group st) line tok rest0)
                       (\<lambda>m. Inr (st\<lparr>ms_modules := ms_modules st @ [m]\<rparr>)))))"

definition is_end_banner :: "string \<Rightarrow> bool" where
  "is_end_banner line = (contains ''***'' line \<and> startswith (strip line) ''***'')"

fun module_loop :: "columns \<Rightarrow> string list \<Rightarrow> mstate \<Rightarrow> error + mstate" where
  \<comment> \<open>the \<open>while\<close> loop over the module summary's body, from \<open>lines[i:]\<close>\<close>
  "module_loop cols [] st = Inr st"
| "module_loop cols (raw # ls) st =
     (let line = rstrip_chars [CHR 0x0D, CHR 0x0A] raw in
      if is_end_banner line then Inr st
      else (case module_line cols line st of
              Inl e \<Rightarrow> Inl e
            | Inr st' \<Rightarrow> module_loop cols ls st'))"

definition parse_module_summary :: "string list \<Rightarrow> error + mstate" where
  \<comment> \<open>the block \<open>Parse MODULE SUMMARY\<close>\<close>
  "parse_module_summary lines =
     (case fst (locate_sections lines) of
        None \<Rightarrow> Inr mstate0
      | Some module_summary_start \<Rightarrow>
          (case find_header is_module_header lines module_summary_start of
             None \<Rightarrow> Inr mstate0
           | Some header_idx \<Rightarrow>
               module_loop (header_columns (lines ! header_idx))
                 (drop (header_idx + 2) lines) mstate0))"

subsection \<open>The final summary, the toolchain line and the whole parse\<close>

definition number_prefix :: "string \<Rightarrow> (string \<times> string) option" where
  \<comment> \<open>\<open>\s*([\d',]+)\s+\<close>: group 1 and what follows the whitespace\<close>
  "number_prefix line =
     (let s1 = dropWhile is_space line in
      if takeWhile digit_quote_comma s1 = [] then None
      else do {
        s2 \<leftarrow> ws1 (dropWhile digit_quote_comma s1);
        Some (takeWhile digit_quote_comma s1, s2)
      })"

definition readonly_code_match :: "string \<Rightarrow> string option" where
  \<comment> \<open>\<open>\s*([\d',]+)\s+bytes of readonly\s+code memory\<close>\<close>
  "readonly_code_match line = do {
     (tok, s2) \<leftarrow> number_prefix line;
     s3 \<leftarrow> lit ''bytes of readonly'' s2;
     s4 \<leftarrow> ws1 s3;
     _ \<leftarrow> lit ''code memory'' s4;
     Some tok
   }"

definition readonly_data_match :: "string \<Rightarrow> string option" where
  \<comment> \<open>\<open>\s*([\d',]+)\s+bytes of readonly\s+data memory\<close>\<close>
  "readonly_data_match line = do {
     (tok, s2) \<leftarrow> number_prefix line;
     s3 \<leftarrow> lit ''bytes of readonly'' s2;
     s4 \<leftarrow> ws1 s3;
     _ \<leftarrow> lit ''data memory'' s4;
     Some tok
   }"

definition readwrite_data_match :: "string \<Rightarrow> string option" where
  \<comment> \<open>\<open>\s*([\d',]+)\s+bytes of readwrite data memory\<close>\<close>
  "readwrite_data_match line = do {
     (tok, s2) \<leftarrow> number_prefix line;
     _ \<leftarrow> lit ''bytes of readwrite data memory'' s2;
     Some tok
   }"

definition summary_field ::
  "string option \<Rightarrow> (int \<Rightarrow> summary \<Rightarrow> summary) \<Rightarrow> summary \<Rightarrow> error + summary" where
  \<comment> \<open>\<open>if m: result["summary"][key] = parse_iar_number(m.group(1))\<close>\<close>
  "summary_field m upd sm =
     (case m of
        None \<Rightarrow> Inr sm
      | Some tok \<Rightarrow> and_then (parse_iar_number tok) (\<lambda>n. Inr (upd n sm)))"

definition summary_line :: "string \<Rightarrow> summary \<Rightarrow> error + summary" where
  \<comment> \<open>one turn of \<open>for line in lines[-20:]\<close>\<close>
  "summary_line line sm =
     and_then (summary_field (readonly_code_match line) (\<lambda>n s. s\<lparr>readonly_code := n\<rparr>) sm)
       (\<lambda>sm1.
     and_then (summary_field (readonly_data_match line) (\<lambda>n s. s\<lparr>readonly_data := n\<rparr>) sm1)
       (\<lambda>sm2.
     summary_field (readwrite_data_match line) (\<lambda>n s. s\<lparr>readwrite_data := n\<rparr>) sm2))"

fun summary_loop :: "string list \<Rightarrow> summary \<Rightarrow> error + summary" where
  "summary_loop [] sm = Inr sm"
| "summary_loop (line # ls) sm =
     (case summary_line line sm of Inl e \<Rightarrow> Inl e | Inr sm' \<Rightarrow> summary_loop ls sm')"

definition last20 :: "'a list \<Rightarrow> 'a list" where
  \<comment> \<open>\<open>lines[-20:]\<close>: the whole list when it has fewer than 20 elements\<close>
  "last20 xs = drop (length xs - 20) xs"

definition parse_summary :: "string list \<Rightarrow> error + summary" where
  "parse_summary lines = summary_loop (last20 lines) summary0"

definition toolchain :: "string list \<Rightarrow> string" where
  \<comment> \<open>the first of \<open>lines[:10]\<close> that names the linker, without its comment marks\<close>
  "toolchain lines =
     (case find (contains ''IAR ELF Linker'') (take 10 lines) of
        None \<Rightarrow> []
      | Some line \<Rightarrow> strip (lstrip_chars ''#'' (strip line)))"

definition sort_entries :: "entry list \<Rightarrow> entry list" where
  \<comment> \<open>\<open>entries.sort(key=lambda e: e["size"], reverse=True)\<close>: Python's sort is stable,
      and with \<open>reverse=True\<close> it sorts as if every comparison were reversed, which for
      integer keys is the stable sort by the negated key.\<close>
  "sort_entries es = sort_key (\<lambda>e. - e_size e) es"

definition parse_map_file :: "string \<Rightarrow> string list \<Rightarrow> error + report" where
  \<comment> \<open>\<open>pname\<close> is the project name, \<open>lines\<close> the file's lines\<close>
  "parse_map_file pname lines =
     and_then (parse_module_summary lines) (\<lambda>ms.
     and_then (parse_summary lines) (\<lambda>sm.
     Inr \<lparr>project_name = pname,
          toolchain_info = toolchain lines,
          modules = ms_modules ms,
          entries = sort_entries (parse_entry_list lines),
          grand_total = ms_grand_total ms,
          summary = sm\<rparr>))"

section \<open>Notions of the specification\<close>

subsection \<open>Grouped-digit tokens and their value\<close>


definition is_separator :: "char \<Rightarrow> bool" where
  "is_separator c = (c = apostrophe \<or> c = CHR '','')"



subsection \<open>Modules and the wrapped entry of scenario B\<close>

definition module_ok :: "module \<Rightarrow> bool" where
  "module_ok m = (m_total m = m_ro_code m + m_ro_data m + m_rw_data m)"





subsection \<open>Occurrences of a banner\<close>

text \<open>
  The index of the last element of a list that passes a test; a line counts as an
  entry-list banner for the locator only when it is not a module-summary banner too,
  since the locator tests for that one first.
\<close>

fun last_index :: "('a \<Rightarrow> bool) \<Rightarrow> 'a list \<Rightarrow> nat option" where
  "last_index P [] = None"
| "last_index P (x # xs) =
     (case last_index P xs of
        Some k \<Rightarrow> Some (Suc k)
      | None \<Rightarrow> if P x then Some 0 else None)"

definition entry_banner_only :: "string \<Rightarrow> bool" where
  "entry_banner_only line = (is_entry_banner line \<and> \<not> is_module_banner line)"

subsection \<open>The sentences of scenario C\<close>

text \<open>
  The three sentences of the final summary as the scenario gives them. A line of the
  scenario is one of the three or one that none of the three patterns matches; a field
  is absent from a list of lines when its pattern matches none of them. \<open>tracks\<close> says
  what one turn of the loop does to the field a pattern fills.
\<close>

definition code_sentence :: string where
  "code_sentence = ''1'' @ [apostrophe] @ ''234 bytes of readonly  code memory''"

definition data_sentence :: string where
  "data_sentence = ''56 bytes of readonly  data memory''"

definition rw_sentence :: string where
  "rw_sentence = ''789 bytes of readwrite data memory''"

definition matches_none :: "string \<Rightarrow> bool" where
  "matches_none line =
     (readonly_code_match line = None \<and> readonly_data_match line = None \<and>
      readwrite_data_match line = None)"

definition scenario_line :: "string \<Rightarrow> bool" where
  "scenario_line line =
     (line = code_sentence \<or> line = data_sentence \<or> line = rw_sentence \<or> matches_none line)"

definition field_absent :: "(string \<Rightarrow> string option) \<Rightarrow> string list \<Rightarrow> bool" where
  "field_absent m ls = list_all (\<lambda>l. m l = None) ls"

definition tracks :: "(string \<Rightarrow> string option) \<Rightarrow> (summary \<Rightarrow> int) \<Rightarrow> bool" where
  "tracks m get =
     (\<forall>line sm sm'. summary_line line sm = Inr sm' \<longrightarrow>
        (case m line of
           None \<Rightarrow> get sm' = get sm
         | Some tok \<Rightarrow> parse_iar_number tok = Inr (get sm')))"

subsection \<open>A section without its header line\<close>

text \<open>
  No header line among the line at \<open>start\<close> and the nine that follow it (fewer at the
  end of the file): the range the parser searches from a banner.
\<close>

definition no_header :: "(string \<Rightarrow> bool) \<Rightarrow> string list \<Rightarrow> nat \<Rightarrow> bool" where
  "no_header P lines start = list_all (\<lambda>l. \<not> P l) (take 10 (drop start lines))"

subsection \<open>Lines that decode and lines no rule recognises\<close>









subsection \<open>A small report\<close>

text \<open>
  A report with both sections, a group header, a wrapped entry, an entry of size 0 and
  the three sentences of the final summary, and the model the parser returns for it.
\<close>

definition example_map :: "string list" where "example_map = [
 ''# IAR ELF Linker V9.20 ##'',
 ''*** MODULE SUMMARY'',
 ''***'',
 ''    Module            ro code  ro data  rw data'',
 ''    ------            -------  -------  -------'',
 ''C:/proj/Obj_1234567890123.dir: [1]'',
 ''    stm32f4xx_hal.o       144        8       12'',
 ''    main.o                380'',
 ''    -------------------------------------------'',
 ''    Total:                524        8       12'',
 '''',
 ''    Grand Total:       1'' @ [apostrophe] @ ''234       56      789'',
 ''*** ENTRY LIST'',
 ''***'',
 ''Entry                  Address   Size  Type      Object'',
 ''-----                  -------   ----  ----      ------'',
 ''main                0x08000100   0x10  Code  Gb  main.o [1]'',
 ''a_very_long_symbol_name'',
 ''0x08001234   0x000000c8   Code   Gb   main.o'',
 ''zero                0x08000200    0x0  Data  Lc  main.o [1]'',
 ''buf                 0x2000'' @ [apostrophe] @ ''0000   0x10  Data  Wk  hal.o [1]'',
 ''[1] = C:/proj'',
 ''  1'' @ [apostrophe] @ ''234 bytes of readonly  code memory'',
 ''     56 bytes of readonly  data memory'',
 ''    789 bytes of readwrite data memory'']"

definition example_report :: report where
  "example_report =
     \<lparr>project_name = ''demo'', toolchain_info = ''IAR ELF Linker V9.20 ##'',
      modules =
        [\<lparr>m_name = ''stm32f4xx_hal'', m_group = ''Obj'', m_ro_code = 144,
            m_ro_data = 8, m_rw_data = 12, m_total = 164\<rparr>,
         \<lparr>m_name = ''main'', m_group = ''Obj'', m_ro_code = 380,
            m_ro_data = 0, m_rw_data = 0, m_total = 380\<rparr>],
      entries =
        [\<lparr>e_name = ''a_very_long_symbol_name'', e_address = ''0x08001234'', e_size = 200,
            e_type = Code, e_scope = Gb, e_object = ''main.o''\<rparr>,
         \<lparr>e_name = ''main'', e_address = ''0x08000100'', e_size = 16,
            e_type = Code, e_scope = Gb, e_object = ''main.o [1]''\<rparr>,
         \<lparr>e_name = ''buf'', e_address = ''0x20000000'', e_size = 16,
            e_type = Data, e_scope = Wk, e_object = ''hal.o [1]''\<rparr>],
      grand_total = \<lparr>gt_ro_code = 1234, gt_ro_data = 56, gt_rw_data = 789\<rparr>,
      summary = \<lparr>readonly_code = 1234, readonly_data = 56, readwrite_data = 789\<rparr>\<rparr>"

text \<open>A module row whose object-file name holds the text \<open>.o\<close> before its extension.\<close>

definition dotted_map :: "string list" where
  "dotted_map =
     [''*** MODULE SUMMARY'',
      ''    Module            ro code  ro data  rw data'',
      ''    ------            -------  -------  -------'',
      ''    boot.old.o            144        8       12'']"

text \<open>Both banners, each twice.\<close>

definition twice_banner_map :: "string list" where
  "twice_banner_map = [''*** MODULE SUMMARY'', ''*** ENTRY LIST'', '''', ''*** MODULE SUMMARY'', ''*** ENTRY LIST'']"

text \<open>The three sentences in another order, between other lines.\<close>

definition shuffled_tail :: "string list" where
  "shuffled_tail = [rw_sentence, ''Errors: none'', code_sentence, [], data_sentence]"

text \<open>
  Reports whose sections have a banner and no header line: one that parses, one whose
  final summary holds a token without a digit, one whose other section holds such a
  token on its Grand Total line.
\<close>

definition headerless_map :: "string list" where
  "headerless_map =
     [''*** MODULE SUMMARY'',
      ''    main.o                380'',
      ''    Grand Total:          380        0        0'',
      ''*** ENTRY LIST'',
      ''main                0x08000100   0x10  Code  Gb  main.o [1]'',
      ''56 bytes of readonly  data memory'']"

definition headerless_report :: report where
  "headerless_report =
     \<lparr>project_name = ''demo'', toolchain_info = [], modules = [], entries = [],
      grand_total = grand_total0,
      summary = \<lparr>readonly_code = 0, readonly_data = 56, readwrite_data = 0\<rparr>\<rparr>"

definition headerless_bad_summary :: "string list" where
  "headerless_bad_summary =
     [''*** MODULE SUMMARY'',
      ''    Grand Total:          380        0        0'',
      [apostrophe] @ '' bytes of readonly  code memory'']"

definition headerless_bad_total :: "string list" where
  "headerless_bad_total =
     [''*** ENTRY LIST'',
      ''*** MODULE SUMMARY'',
      ''    Module            ro code  ro data  rw data'',
      ''    ------            -------  -------  -------'',
      ''    Grand Total:          '' @ [apostrophe] @ ''        0        0'']"





section \<open>Verification\<close>

subsection \<open>The number decoder\<close>





lemma separator_not_space: "is_separator c \<Longrightarrow> \<not> is_space c"
  by (auto simp: is_separator_def is_space_def apostrophe_def)

















subsection \<open>The small report, parsed\<close>

lemma example_parse: "parse_map_file ''demo'' example_map = Inr example_report"
  by code_simp

subsection \<open>Every module's total is the sum of its three counts\<close>

lemma module_row_total:
  "module_row cols grp line tok rest0 = Inr m \<Longrightarrow> module_ok m"
  by (auto simp: module_row_def and_then_def make_module_def module_ok_def Let_def
           split: sum.splits if_splits)

lemma module_line_total:
  assumes "module_line cols line st = Inr st'" "list_all module_ok (ms_modules st)"
  shows "list_all module_ok (ms_modules st')"
  using assms
  by (auto simp: module_line_def and_then_def Let_def
           split: sum.splits if_splits option.splits)
     (erule module_row_total)+

lemma module_loop_total:
  "module_loop cols ls st = Inr st' \<Longrightarrow> list_all module_ok (ms_modules st)
   \<Longrightarrow> list_all module_ok (ms_modules st')"
proof (induction ls arbitrary: st)
  case Nil
  then show ?case by simp
next
  case (Cons raw ls)
  then show ?case
    by (auto simp: Let_def split: if_splits sum.splits dest: module_line_total)
qed

lemma parse_module_summary_total:
  "parse_module_summary lines = Inr ms \<Longrightarrow> list_all module_ok (ms_modules ms)"
  by (auto simp: parse_module_summary_def mstate0_def
           split: option.splits dest: module_loop_total)

text \<open>
  Claim C5. Every module of a returned report has \<open>total = ro_code + ro_data + rw_data\<close>:
  the parser computes the total from the three counts it has just decoded, whatever the
  line holds.
\<close>

theorem module_total_is_sum:
  "parse_map_file pname lines = Inr r \<Longrightarrow>
   \<forall>m \<in> set (modules r). m_total m = m_ro_code m + m_ro_data m + m_rw_data m"
proof -
  assume "parse_map_file pname lines = Inr r"
  then obtain ms where "parse_module_summary lines = Inr ms" "modules r = ms_modules ms"
    by (auto simp: parse_map_file_def and_then_def split: sum.splits)
  then show ?thesis
    using parse_module_summary_total [of lines ms]
    by (simp add: list_all_iff module_ok_def)
qed

theorem module_total_is_sum_witness:
  "parse_map_file ''demo'' example_map = Inr example_report \<and>
   map m_total (modules example_report) = [164, 380] \<and>
   map (\<lambda>m. m_ro_code m + m_ro_data m + m_rw_data m) (modules example_report) = [164, 380]"
  using module_total_is_sum [OF example_parse] example_parse
  by (simp add: example_report_def)

subsection \<open>No entry of size 0\<close>

lemma append_entry_positive:
  "list_all (\<lambda>e. 0 < e_size e) acc \<Longrightarrow> list_all (\<lambda>e. 0 < e_size e) (append_entry acc name r)"
  by (cases r) (simp add: append_entry_def make_entry_def)

lemma entry_loop_positive:
  "list_all (\<lambda>e. 0 < e_size e) acc \<Longrightarrow> list_all (\<lambda>e. 0 < e_size e) (entry_loop ls acc)"
proof (induction ls acc rule: entry_loop.induct)
  case (1 acc)
  then show ?case by simp
next
  case (2 raw ls acc)
  then show ?case
    by (auto simp: Let_def append_entry_positive split: option.splits list.splits)
qed

lemma parse_entry_list_positive: "list_all (\<lambda>e. 0 < e_size e) (parse_entry_list lines)"
  by (simp add: parse_entry_list_def entry_loop_positive split: option.splits)

lemma entries_of_parse:
  "parse_map_file pname lines = Inr r \<Longrightarrow> entries r = sort_entries (parse_entry_list lines)"
  by (auto simp: parse_map_file_def and_then_def split: sum.splits)

text \<open>
  Claim C4. Every entry of a returned report has a size above 0; and a matched line, in
  the single-line form or in the wrapped form (both append through \<open>append_entry\<close>),
  whose hexadecimal size decodes to 0 appends nothing.
\<close>

theorem entries_have_positive_size:
  "(parse_map_file pname lines = Inr r \<longrightarrow> (\<forall>e \<in> set (entries r). 0 < e_size e)) \<and>
   (int_hex size_hex = 0 \<longrightarrow>
      append_entry acc name (address, size_hex, entry_type, sc, obj) = acc)"
proof (intro conjI impI)
  assume "parse_map_file pname lines = Inr r"
  then show "\<forall>e \<in> set (entries r). 0 < e_size e"
    using parse_entry_list_positive [of lines]
    by (simp add: entries_of_parse sort_entries_def list_all_iff)
next
  assume "int_hex size_hex = 0"
  then show "append_entry acc name (address, size_hex, entry_type, sc, obj) = acc"
    by (simp add: append_entry_def)
qed

theorem entries_have_positive_size_witness:
  "parse_map_file ''demo'' example_map = Inr example_report \<and>
   map e_size (entries example_report) = [200, 16, 16] \<and>
   list_all (\<lambda>e. 0 < e_size e) (entries example_report) \<and>
   int_hex ''0x0'' = 0 \<and>
   append_entry [] ''zero'' (''0x08000200'', ''0x0'', Data, Lc, ''main.o [1]'') = []"
proof -
  have z: "int_hex ''0x0'' = 0"
    by code_simp
  have p: "list_all (\<lambda>e. 0 < e_size e) (entries example_report)"
    "map e_size (entries example_report) = [200, 16, 16]"
    by (simp_all add: example_report_def)
  show ?thesis
    using entries_have_positive_size
        [of "''demo''" example_map example_report "''0x0''" "[]" "''zero''" "''0x08000200''"
            Data Lc "''main.o [1]''"]
      example_parse z p
    by blast
qed

subsection \<open>The entries are sorted by size, descending and stable\<close>

lemma sorted_neg_adjacent:
  "sorted (map (\<lambda>e. - e_size e) es) \<Longrightarrow> Suc i < length es \<Longrightarrow> e_size (es ! Suc i) \<le> e_size (es ! i)"
  using sorted_nth_mono [of "map (\<lambda>e. - e_size e) es" i "Suc i"] by simp

lemma sort_entries_stable:
  "filter (\<lambda>e. e_size e = k) (sort_entries es) = filter (\<lambda>e. e_size e = k) es"
  using sort_key_stable [of "\<lambda>e. - e_size e" "- k" es] by (simp add: sort_entries_def)

text \<open>
  Claim C3. In a returned report each entry is at least as large as the next one, and
  the entries of any one size stand in the order in which the entry list was read
  (\<open>parse_entry_list\<close> is the list before the sort).
\<close>

theorem entries_sorted_descending_stable:
  "parse_map_file pname lines = Inr r \<Longrightarrow>
   (\<forall>i. Suc i < length (entries r) \<longrightarrow> e_size (entries r ! Suc i) \<le> e_size (entries r ! i)) \<and>
   (\<forall>k. filter (\<lambda>e. e_size e = k) (entries r) =
        filter (\<lambda>e. e_size e = k) (parse_entry_list lines))"
proof -
  assume p: "parse_map_file pname lines = Inr r"
  have "sorted (map (\<lambda>e. - e_size e) (entries r))"
    by (simp add: entries_of_parse [OF p] sort_entries_def)
  then show ?thesis
    by (auto simp: sorted_neg_adjacent entries_of_parse [OF p] sort_entries_stable)
qed

theorem entries_sorted_descending_stable_witness:
  "parse_map_file ''demo'' example_map = Inr example_report \<and>
   e_size (entries example_report ! Suc 0) \<le> e_size (entries example_report ! 0) \<and>
   filter (\<lambda>e. e_size e = 16) (entries example_report) =
     filter (\<lambda>e. e_size e = 16) (parse_entry_list example_map) \<and>
   map e_name (filter (\<lambda>e. e_size e = 16) (entries example_report)) = [''main'', ''buf'']"
proof -
  have l: "Suc 0 < length (entries example_report)"
    by (simp add: example_report_def)
  have n: "map e_name (filter (\<lambda>e. e_size e = 16) (entries example_report)) = [''main'', ''buf'']"
    by (simp add: example_report_def)
  show ?thesis
    using entries_sorted_descending_stable [OF example_parse] example_parse l n by blast
qed

subsection \<open>The wrapped entry of scenario B\<close>






subsection \<open>The module name\<close>

text \<open>
  Claim C6 says that only the trailing extension of the object-file token is stripped.
  The parser calls \<open>replace(".o", "")\<close>, which removes every occurrence of the text
  \<open>.o\<close>: the row of \<open>boot.old.o\<close> yields the module \<open>bootld\<close>, not \<open>boot.old\<close>.
\<close>

theorem interior_extension_text_removed:
  "parse_map_file ''demo'' dotted_map =
     Inr \<lparr>project_name = ''demo'', toolchain_info = [],
          modules = [\<lparr>m_name = ''bootld'', m_group = [], m_ro_code = 144, m_ro_data = 8,
                      m_rw_data = 12, m_total = 164\<rparr>],
          entries = [], grand_total = grand_total0, summary = summary0\<rparr>"
  by code_simp

subsection \<open>The section locator\<close>

text \<open>
  Claim C2 says that the first occurrence of each banner is used. The loop over the
  lines has no \<open>break\<close> and assigns at every banner it meets: with each banner twice,
  at the indices 0 and 3 and at 1 and 4, the locator returns 3 and 4.
\<close>

theorem locator_takes_later_banner:
  "first_index is_module_banner twice_banner_map = Some 0 \<and>
   first_index is_entry_banner twice_banner_map = Some 1 \<and>
   locate_sections twice_banner_map = (Some 3, Some 4)"
  by code_simp

lemma locate_fold:
  "foldl locate_step (a, b) (enumerate n ls) =
     ((case last_index is_module_banner ls of Some k \<Rightarrow> Some (n + k) | None \<Rightarrow> a),
      (case last_index entry_banner_only ls of
         Some k \<Rightarrow> Some (n + k) | None \<Rightarrow> b))"
proof (induction ls arbitrary: a b n)
  case Nil
  then show ?case by simp
next
  case (Cons l ls)
  have step: "locate_step (a, b) (n, l) =
      (if is_module_banner l then (Some n, b)
       else if is_entry_banner l then (a, Some n) else (a, b))"
    by (simp add: locate_step_def)
  show ?case
    by (cases "is_module_banner l"; cases "is_entry_banner l")
       (simp_all add: step Cons.IH entry_banner_only_def split: option.splits)
qed

lemma locate_sections_last_index:
  "locate_sections lines =
     (last_index is_module_banner lines, last_index entry_banner_only lines)"
  by (simp add: locate_sections_def locate_fold split: option.splits)

lemma last_index_None: "last_index P xs = None \<longleftrightarrow> (\<forall>x \<in> set xs. \<not> P x)"
  by (induction xs) (auto split: option.splits)

lemma last_index_Some:
  "last_index P xs = Some k \<Longrightarrow>
   k < length xs \<and> P (xs ! k) \<and> (\<forall>j. k < j \<and> j < length xs \<longrightarrow> \<not> P (xs ! j))"
proof (induction xs arbitrary: k)
  case Nil
  then show ?case by simp
next
  case (Cons x xs)
  show ?case
  proof (cases "last_index P xs")
    case None
    then have no: "\<forall>y \<in> set xs. \<not> P y"
      by (simp add: last_index_None)
    from Cons.prems None have k: "k = 0" and px: "P x"
      by (auto split: if_splits)
    have "\<not> P ((x # xs) ! j)" if "0 < j" "j < length (x # xs)" for j
      using that no by (cases j) auto
    then show ?thesis
      using k px by auto
  next
    case (Some k')
    with Cons.prems have k: "k = Suc k'"
      by simp
    from Cons.IH [OF Some]
    have ih: "k' < length xs" "P (xs ! k')" "\<forall>j. k' < j \<and> j < length xs \<longrightarrow> \<not> P (xs ! j)"
      by auto
    have "\<not> P ((x # xs) ! j)" if "Suc k' < j" "j < length (x # xs)" for j
      using that ih(3) by (cases j) auto
    then show ?thesis
      using k ih by auto
  qed
qed

lemma last_index_is_last:
  "last_index P xs = Some k \<longleftrightarrow>
   k < length xs \<and> P (xs ! k) \<and> (\<forall>j. k < j \<and> j < length xs \<longrightarrow> \<not> P (xs ! j))"
proof
  assume "last_index P xs = Some k"
  then show "k < length xs \<and> P (xs ! k) \<and> (\<forall>j. k < j \<and> j < length xs \<longrightarrow> \<not> P (xs ! j))"
    by (rule last_index_Some)
next
  assume r: "k < length xs \<and> P (xs ! k) \<and> (\<forall>j. k < j \<and> j < length xs \<longrightarrow> \<not> P (xs ! j))"
  then have "last_index P xs \<noteq> None"
    by (auto simp: last_index_None)
  then obtain k' where k': "last_index P xs = Some k'"
    by auto
  from last_index_Some [OF k'] r have "k' = k"
    by (meson linorder_neqE_nat)
  with k' show "last_index P xs = Some k"
    by simp
qed

text \<open>
  Claim C2, amended. The locator uses the last occurrence of each banner:
  \<open>module_summary_start\<close> is the greatest index of a line that holds the module-summary
  marker and the border marker, and \<open>entry_list_start\<close> the greatest index of a line that
  holds the entry-list marker and the border marker and is not a module-summary banner;
  each is \<open>None\<close> when there is no such line.
\<close>

theorem locator_takes_last_banner:
  "(fst (locate_sections lines) = Some k \<longleftrightarrow>
      k < length lines \<and> is_module_banner (lines ! k) \<and>
      (\<forall>j. k < j \<and> j < length lines \<longrightarrow> \<not> is_module_banner (lines ! j))) \<and>
   (snd (locate_sections lines) = Some k \<longleftrightarrow>
      k < length lines \<and> entry_banner_only (lines ! k) \<and>
      (\<forall>j. k < j \<and> j < length lines \<longrightarrow> \<not> entry_banner_only (lines ! j)))"
  by (simp add: locate_sections_last_index last_index_is_last)

lemma twice_banner_located: "locate_sections twice_banner_map = (Some 3, Some 4)"
  by code_simp

theorem locator_takes_last_banner_witness:
  "fst (locate_sections twice_banner_map) = Some 3 \<and>
   is_module_banner (twice_banner_map ! 3) \<and> 3 < length twice_banner_map \<and>
   snd (locate_sections twice_banner_map) = Some 4 \<and>
   entry_banner_only (twice_banner_map ! 4)"
  using locator_takes_last_banner [of twice_banner_map 3]
    locator_takes_last_banner [of twice_banner_map 4] twice_banner_located
  by simp

subsection \<open>The final summary\<close>

lemma summary_line_code: "summary_line code_sentence sm = Inr (sm\<lparr>readonly_code := 1234\<rparr>)"
  by code_simp

lemma summary_line_data: "summary_line data_sentence sm = Inr (sm\<lparr>readonly_data := 56\<rparr>)"
  by code_simp

lemma summary_line_rw: "summary_line rw_sentence sm = Inr (sm\<lparr>readwrite_data := 789\<rparr>)"
  by code_simp

lemma summary_line_none: "matches_none line \<Longrightarrow> summary_line line sm = Inr sm"
  by (simp add: matches_none_def summary_line_def summary_field_def and_then_def)

lemma sentences_distinct:
  "code_sentence \<noteq> data_sentence" "code_sentence \<noteq> rw_sentence" "data_sentence \<noteq> rw_sentence"
  by code_simp+

lemma summary_loop_scenario:
  "list_all scenario_line ls \<Longrightarrow>
   summary_loop ls sm =
     Inr \<lparr>readonly_code = (if code_sentence \<in> set ls then 1234 else readonly_code sm),
          readonly_data = (if data_sentence \<in> set ls then 56 else readonly_data sm),
          readwrite_data = (if rw_sentence \<in> set ls then 789 else readwrite_data sm)\<rparr>"
proof (induction ls arbitrary: sm)
  case Nil
  then show ?case by simp
next
  case (Cons l ls)
  then have rest: "list_all scenario_line ls" and l: "scenario_line l"
    by simp_all
  note ih = Cons.IH [OF rest]
  from l consider "l = code_sentence" | "l = data_sentence" | "l = rw_sentence" | "matches_none l"
      "l \<noteq> code_sentence" "l \<noteq> data_sentence" "l \<noteq> rw_sentence"
    unfolding scenario_line_def by blast
  then show ?case
  proof cases
    case 1
    then show ?thesis
      using sentences_distinct by (simp add: summary_line_code ih)
  next
    case 2
    then show ?thesis
      using sentences_distinct by (simp add: summary_line_data ih)
  next
    case 3
    then show ?thesis
      using sentences_distinct by (simp add: summary_line_rw ih)
  next
    case 4
    then show ?thesis
      by (simp add: summary_line_none ih)
  qed
qed

lemma summary_field_result:
  "summary_field m upd sm = Inr sm' \<Longrightarrow>
   (m = None \<and> sm' = sm) \<or> (\<exists>tok n. m = Some tok \<and> parse_iar_number tok = Inr n \<and> sm' = upd n sm)"
  by (auto simp: summary_field_def and_then_def split: option.splits sum.splits)

lemma summary_line_result:
  assumes "summary_line line sm = Inr sm'"
  obtains s1 s2 where
    "summary_field (readonly_code_match line) (\<lambda>n s. s\<lparr>readonly_code := n\<rparr>) sm = Inr s1"
    "summary_field (readonly_data_match line) (\<lambda>n s. s\<lparr>readonly_data := n\<rparr>) s1 = Inr s2"
    "summary_field (readwrite_data_match line) (\<lambda>n s. s\<lparr>readwrite_data := n\<rparr>) s2 = Inr sm'"
  using assms by (auto simp: summary_line_def and_then_def split: sum.splits)

lemma tracks_readonly_code: "tracks readonly_code_match readonly_code"
  unfolding tracks_def
proof (intro allI impI)
  fix line sm sm'
  assume "summary_line line sm = Inr sm'"
  then obtain s1 s2 where
    "summary_field (readonly_code_match line) (\<lambda>n s. s\<lparr>readonly_code := n\<rparr>) sm = Inr s1"
    "summary_field (readonly_data_match line) (\<lambda>n s. s\<lparr>readonly_data := n\<rparr>) s1 = Inr s2"
    "summary_field (readwrite_data_match line) (\<lambda>n s. s\<lparr>readwrite_data := n\<rparr>) s2 = Inr sm'"
    by (rule summary_line_result)
  then show "case readonly_code_match line of
               None \<Rightarrow> readonly_code sm' = readonly_code sm
             | Some tok \<Rightarrow> parse_iar_number tok = Inr (readonly_code sm')"
    by (auto dest!: summary_field_result split: option.splits)
qed

lemma tracks_readonly_data: "tracks readonly_data_match readonly_data"
  unfolding tracks_def
proof (intro allI impI)
  fix line sm sm'
  assume "summary_line line sm = Inr sm'"
  then obtain s1 s2 where
    "summary_field (readonly_code_match line) (\<lambda>n s. s\<lparr>readonly_code := n\<rparr>) sm = Inr s1"
    "summary_field (readonly_data_match line) (\<lambda>n s. s\<lparr>readonly_data := n\<rparr>) s1 = Inr s2"
    "summary_field (readwrite_data_match line) (\<lambda>n s. s\<lparr>readwrite_data := n\<rparr>) s2 = Inr sm'"
    by (rule summary_line_result)
  then show "case readonly_data_match line of
               None \<Rightarrow> readonly_data sm' = readonly_data sm
             | Some tok \<Rightarrow> parse_iar_number tok = Inr (readonly_data sm')"
    by (auto dest!: summary_field_result split: option.splits)
qed

lemma tracks_readwrite_data: "tracks readwrite_data_match readwrite_data"
  unfolding tracks_def
proof (intro allI impI)
  fix line sm sm'
  assume "summary_line line sm = Inr sm'"
  then obtain s1 s2 where
    "summary_field (readonly_code_match line) (\<lambda>n s. s\<lparr>readonly_code := n\<rparr>) sm = Inr s1"
    "summary_field (readonly_data_match line) (\<lambda>n s. s\<lparr>readonly_data := n\<rparr>) s1 = Inr s2"
    "summary_field (readwrite_data_match line) (\<lambda>n s. s\<lparr>readwrite_data := n\<rparr>) s2 = Inr sm'"
    by (rule summary_line_result)
  then show "case readwrite_data_match line of
               None \<Rightarrow> readwrite_data sm' = readwrite_data sm
             | Some tok \<Rightarrow> parse_iar_number tok = Inr (readwrite_data sm')"
    by (auto dest!: summary_field_result split: option.splits)
qed

lemma summary_loop_absent:
  assumes "tracks m get"
  shows "field_absent m ls \<Longrightarrow> summary_loop ls sm = Inr sm' \<Longrightarrow> get sm' = get sm"
proof (induction ls arbitrary: sm)
  case Nil
  then show ?case by simp
next
  case (Cons l ls)
  from Cons.prems obtain s1 where s1: "summary_line l sm = Inr s1" "summary_loop ls s1 = Inr sm'"
    by (auto split: sum.splits)
  from Cons.prems have "m l = None" "field_absent m ls"
    by (simp_all add: field_absent_def)
  with assms s1 Cons.IH [of s1] show ?case
    by (fastforce simp: tracks_def)
qed

lemma summary_loop_append:
  "summary_loop (xs @ ys) sm =
     (case summary_loop xs sm of Inl e \<Rightarrow> Inl e | Inr s \<Rightarrow> summary_loop ys s)"
  by (induction xs arbitrary: sm) (auto split: sum.splits)

lemma summary_loop_last_match:
  assumes "tracks m get" "summary_loop (pre @ l # post) sm = Inr sm'" "m l = Some tok"
    "field_absent m post"
  shows "parse_iar_number tok = Inr (get sm')"
proof -
  from assms(2) obtain s1 s2 where
    "summary_line l s1 = Inr s2" "summary_loop post s2 = Inr sm'"
    by (auto simp: summary_loop_append split: sum.splits)
  then show ?thesis
    using assms(1,3,4) summary_loop_absent [OF assms(1), of post s2 sm']
    by (fastforce simp: tracks_def)
qed

lemma last20_append: "20 \<le> length post \<Longrightarrow> last20 (pre @ post) = last20 post"
  by (simp add: last20_def)

lemma summary_of_parse:
  "parse_map_file pname lines = Inr r \<Longrightarrow> parse_summary lines = Inr (summary r)"
  by (auto simp: parse_map_file_def and_then_def split: sum.splits)

text \<open>
  Claim C9. The summary is read from the last 20 lines only: lines before them change
  nothing. Every scanned line is tried against each of the three patterns, whatever the
  order of the lines, and a match stores the decoded number in its field, so that the
  last matching line decides. In particular, when the three sentences of scenario C
  stand among the last 20 lines, in any order, and every other of these lines matches no
  pattern, the summary is \<open>{1234, 56, 789}\<close>; and a field whose pattern matches none of
  the last 20 lines is 0. The summary of a returned report is this summary.
\<close>

theorem summary_from_final_lines:
  "(20 \<le> length post \<longrightarrow> parse_summary (pre @ post) = parse_summary post) \<and>
   (code_sentence \<in> set (last20 lines) \<and> data_sentence \<in> set (last20 lines) \<and>
    rw_sentence \<in> set (last20 lines) \<and> list_all scenario_line (last20 lines) \<longrightarrow>
      parse_summary lines =
        Inr \<lparr>readonly_code = 1234, readonly_data = 56, readwrite_data = 789\<rparr>) \<and>
   (parse_summary lines = Inr sm \<longrightarrow>
      (field_absent readonly_code_match (last20 lines) \<longrightarrow> readonly_code sm = 0) \<and>
      (field_absent readonly_data_match (last20 lines) \<longrightarrow> readonly_data sm = 0) \<and>
      (field_absent readwrite_data_match (last20 lines) \<longrightarrow> readwrite_data sm = 0)) \<and>
   (parse_summary lines = Inr sm \<and> last20 lines = before @ l # after \<longrightarrow>
      (readonly_code_match l = Some tok \<and> field_absent readonly_code_match after \<longrightarrow>
         parse_iar_number tok = Inr (readonly_code sm)) \<and>
      (readonly_data_match l = Some tok \<and> field_absent readonly_data_match after \<longrightarrow>
         parse_iar_number tok = Inr (readonly_data sm)) \<and>
      (readwrite_data_match l = Some tok \<and> field_absent readwrite_data_match after \<longrightarrow>
         parse_iar_number tok = Inr (readwrite_data sm))) \<and>
   (parse_map_file pname lines = Inr r \<longrightarrow> parse_summary lines = Inr (summary r))"
proof (intro conjI impI)
  show "parse_summary (pre @ post) = parse_summary post" if "20 \<le> length post"
    using that by (simp add: parse_summary_def last20_append)
next
  assume "code_sentence \<in> set (last20 lines) \<and> data_sentence \<in> set (last20 lines) \<and>
    rw_sentence \<in> set (last20 lines) \<and> list_all scenario_line (last20 lines)"
  then show "parse_summary lines =
      Inr \<lparr>readonly_code = 1234, readonly_data = 56, readwrite_data = 789\<rparr>"
    by (simp add: parse_summary_def summary_loop_scenario)
next
  assume "parse_summary lines = Inr sm" "field_absent readonly_code_match (last20 lines)"
  then show "readonly_code sm = 0"
    using summary_loop_absent [OF tracks_readonly_code, of "last20 lines" summary0 sm]
    by (simp add: parse_summary_def summary0_def)
next
  assume "parse_summary lines = Inr sm" "field_absent readonly_data_match (last20 lines)"
  then show "readonly_data sm = 0"
    using summary_loop_absent [OF tracks_readonly_data, of "last20 lines" summary0 sm]
    by (simp add: parse_summary_def summary0_def)
next
  assume "parse_summary lines = Inr sm" "field_absent readwrite_data_match (last20 lines)"
  then show "readwrite_data sm = 0"
    using summary_loop_absent [OF tracks_readwrite_data, of "last20 lines" summary0 sm]
    by (simp add: parse_summary_def summary0_def)
next
  assume "parse_summary lines = Inr sm \<and> last20 lines = before @ l # after"
    "readonly_code_match l = Some tok \<and> field_absent readonly_code_match after"
  then show "parse_iar_number tok = Inr (readonly_code sm)"
    using summary_loop_last_match [OF tracks_readonly_code, of before l after summary0 sm tok]
    by (auto simp: parse_summary_def)
next
  assume "parse_summary lines = Inr sm \<and> last20 lines = before @ l # after"
    "readonly_data_match l = Some tok \<and> field_absent readonly_data_match after"
  then show "parse_iar_number tok = Inr (readonly_data sm)"
    using summary_loop_last_match [OF tracks_readonly_data, of before l after summary0 sm tok]
    by (auto simp: parse_summary_def)
next
  assume "parse_summary lines = Inr sm \<and> last20 lines = before @ l # after"
    "readwrite_data_match l = Some tok \<and> field_absent readwrite_data_match after"
  then show "parse_iar_number tok = Inr (readwrite_data sm)"
    using summary_loop_last_match [OF tracks_readwrite_data, of before l after summary0 sm tok]
    by (auto simp: parse_summary_def)
next
  show "parse_summary lines = Inr (summary r)" if "parse_map_file pname lines = Inr r"
    using that by (rule summary_of_parse)
qed

theorem summary_from_final_lines_witness:
  "code_sentence \<in> set (last20 shuffled_tail) \<and> data_sentence \<in> set (last20 shuffled_tail) \<and>
   rw_sentence \<in> set (last20 shuffled_tail) \<and> list_all scenario_line (last20 shuffled_tail) \<and>
   parse_summary shuffled_tail =
     Inr \<lparr>readonly_code = 1234, readonly_data = 56, readwrite_data = 789\<rparr> \<and>
   parse_summary dotted_map = Inr summary0 \<and>
   field_absent readonly_code_match (last20 dotted_map) \<and> readonly_code summary0 = 0"
proof -
  have t: "code_sentence \<in> set (last20 shuffled_tail)" "data_sentence \<in> set (last20 shuffled_tail)"
    "rw_sentence \<in> set (last20 shuffled_tail)" "list_all scenario_line (last20 shuffled_tail)"
    by code_simp+
  have d: "parse_summary dotted_map = Inr summary0"
    "field_absent readonly_code_match (last20 dotted_map)"
    by code_simp+
  show ?thesis
    using summary_from_final_lines [of _ _ shuffled_tail]
      summary_from_final_lines [of _ _ dotted_map summary0] t d
    by blast
qed

subsection \<open>A section whose header line is missing\<close>

text \<open>
  Claim C10 says that with a banner and no header line the section is skipped and the
  parse still returns a report. The section is skipped, but the parse as a whole can
  still abort, in the final summary or in the other section: in the first report below
  the module summary has no header and the summary sentence holds the token \<open>'\<close>; in the
  second the entry list has no header and the Grand Total line of the module summary
  holds the token \<open>'\<close>. In both \<open>int("")\<close> raises \<open>ValueError\<close>.
\<close>

theorem headerless_parse_can_abort:
  "fst (locate_sections headerless_bad_summary) = Some 0 \<and>
   no_header is_module_header headerless_bad_summary 0 \<and>
   parse_map_file ''demo'' headerless_bad_summary = Inl ValueError \<and>
   snd (locate_sections headerless_bad_total) = Some 0 \<and>
   no_header is_entry_header headerless_bad_total 0 \<and>
   parse_map_file ''demo'' headerless_bad_total = Inl ValueError"
  by code_simp

lemma first_index_None: "first_index P xs = None \<longleftrightarrow> list_all (\<lambda>x. \<not> P x) xs"
  by (induction xs) auto

lemma find_header_None: "find_header P lines start = None \<longleftrightarrow> no_header P lines start"
  by (simp add: find_header_def no_header_def first_index_None)

lemma no_header_nth:
  "no_header P lines start \<longleftrightarrow>
   (\<forall>i. start \<le> i \<and> i < start + 10 \<and> i < length lines \<longrightarrow> \<not> P (lines ! i))"
proof
  assume n: "no_header P lines start"
  show "\<forall>i. start \<le> i \<and> i < start + 10 \<and> i < length lines \<longrightarrow> \<not> P (lines ! i)"
  proof (intro allI impI)
    fix i
    assume i: "start \<le> i \<and> i < start + 10 \<and> i < length lines"
    then have "i - start < length (take 10 (drop start lines))"
      by auto
    with n have "\<not> P (take 10 (drop start lines) ! (i - start))"
      unfolding no_header_def list_all_length by blast
    moreover have "take 10 (drop start lines) ! (i - start) = drop start lines ! (i - start)"
      by (rule nth_take) (use i in arith)
    moreover have "drop start lines ! (i - start) = lines ! (start + (i - start))"
      by (rule nth_drop) (use i in arith)
    moreover have "start + (i - start) = i"
      using i by arith
    ultimately show "\<not> P (lines ! i)"
      by simp
  qed
next
  assume a: "\<forall>i. start \<le> i \<and> i < start + 10 \<and> i < length lines \<longrightarrow> \<not> P (lines ! i)"
  show "no_header P lines start"
    unfolding no_header_def list_all_length
  proof (intro allI impI)
    fix k
    assume "k < length (take 10 (drop start lines))"
    then have "start \<le> start + k \<and> start + k < start + 10 \<and> start + k < length lines"
      by auto
    with a have "\<not> P (lines ! (start + k))"
      by blast
    moreover have "start \<le> length lines" "k < 10"
      using \<open>k < length (take 10 (drop start lines))\<close> by auto
    ultimately show "\<not> P (take 10 (drop start lines) ! k)"
      by simp
  qed
qed

text \<open>
  Claim C10, amended. When the module summary has a banner and no header line among the
  banner line and the 9 lines after it, the section is skipped without an error of its
  own: no module is read and the grand total stays \<open>{0, 0, 0}\<close>, whatever the body
  holds, and the parse returns a report exactly when the final summary decodes. When
  the entry list has a banner and no such header line, it is skipped as well: no entry
  is read, and every report the parse returns has no entries.
\<close>

theorem headerless_section_skipped:
  "(fst (locate_sections lines) = Some start \<and> no_header is_module_header lines start \<longrightarrow>
      parse_module_summary lines = Inr mstate0 \<and>
      parse_map_file pname lines =
        (case parse_summary lines of
           Inl e \<Rightarrow> Inl e
         | Inr sm \<Rightarrow>
             Inr \<lparr>project_name = pname, toolchain_info = toolchain lines, modules = [],
                  entries = sort_entries (parse_entry_list lines),
                  grand_total = grand_total0, summary = sm\<rparr>)) \<and>
   (snd (locate_sections lines) = Some start \<and> no_header is_entry_header lines start \<longrightarrow>
      parse_entry_list lines = [] \<and>
      (\<forall>r. parse_map_file pname lines = Inr r \<longrightarrow> entries r = []))"
proof (intro conjI impI allI)
  assume a: "fst (locate_sections lines) = Some start \<and> no_header is_module_header lines start"
  then have "find_header is_module_header lines start = None"
    by (simp add: find_header_None)
  with a show m: "parse_module_summary lines = Inr mstate0"
    by (simp add: parse_module_summary_def)
  show "parse_map_file pname lines =
        (case parse_summary lines of
           Inl e \<Rightarrow> Inl e
         | Inr sm \<Rightarrow>
             Inr \<lparr>project_name = pname, toolchain_info = toolchain lines, modules = [],
                  entries = sort_entries (parse_entry_list lines),
                  grand_total = grand_total0, summary = sm\<rparr>)"
    by (simp add: parse_map_file_def m and_then_def mstate0_def split: sum.splits)
next
  assume a: "snd (locate_sections lines) = Some start \<and> no_header is_entry_header lines start"
  then have "find_header is_entry_header lines start = None"
    by (simp add: find_header_None)
  with a show e: "parse_entry_list lines = []"
    by (simp add: parse_entry_list_def)
  show "entries r = []" if "parse_map_file pname lines = Inr r" for r
    using that by (simp add: entries_of_parse e sort_entries_def)
qed

lemma headerless_parse: "parse_map_file ''demo'' headerless_map = Inr headerless_report"
  by code_simp

theorem headerless_section_skipped_witness:
  "fst (locate_sections headerless_map) = Some 0 \<and> no_header is_module_header headerless_map 0 \<and>
   snd (locate_sections headerless_map) = Some 3 \<and> no_header is_entry_header headerless_map 3 \<and>
   parse_module_summary headerless_map = Inr mstate0 \<and>
   parse_entry_list headerless_map = [] \<and>
   parse_map_file ''demo'' headerless_map = Inr headerless_report \<and>
   modules headerless_report = [] \<and> entries headerless_report = [] \<and>
   grand_total headerless_report = grand_total0"
proof -
  have h: "fst (locate_sections headerless_map) = Some 0"
    "no_header is_module_header headerless_map 0"
    "snd (locate_sections headerless_map) = Some 3"
    "no_header is_entry_header headerless_map 3"
    by code_simp+
  have r: "modules headerless_report = []" "entries headerless_report = []"
    "grand_total headerless_report = grand_total0"
    by (simp_all add: headerless_report_def)
  show ?thesis
    using headerless_section_skipped [of headerless_map 0 "''demo''"]
      headerless_section_skipped [of headerless_map 3 "''demo''"] h r headerless_parse
    by blast
qed

subsection \<open>Lines the parser does not recognise, and numbers it cannot decode\<close>
















end
